theory Spec2Isabelle
  imports Complex_Main
begin

section \<open>Time\<close>

text \<open>
  A JavaScript \<open>Date\<close> is represented by its \<open>getTime()\<close> value, an integer number of
  milliseconds since the epoch. The calendar operations the code uses (\<open>getDay\<close>,
  \<open>setDate\<close>, \<open>setHours\<close>) work in the device's local zone; the model fixes that zone
  to UTC, so a local day is a block of \<open>86400000\<close> ms and no daylight-saving shift occurs.

  An ISO date string \<open>YYYY-MM-DD\<close> (the format of \<open>travelStartDate\<close>) is represented by
  its day number, the count of days since 1970-01-01: \<open>new Date(s).getTime()\<close> is the
  UTC midnight of that day, and \<open>new Date().toISOString().split('T')[0]\<close> is the day
  number of the current instant.
\<close>

type_synonym instant = int
type_synonym isoDate = int

definition msPerDay :: int where
  "msPerDay = 1000 * 60 * 60 * 24"

definition dateGetTime :: "isoDate \<Rightarrow> instant" where
  "dateGetTime d = d * msPerDay"

definition todayISO :: "instant \<Rightarrow> isoDate" where
  "todayISO now = now div msPerDay"

section \<open>Geo distance utility (utils/distance.ts)\<close>

text \<open>Floating-point numbers are idealised as reals.\<close>

record Coordinates =
  latitude :: real
  longitude :: real

definition EARTH_RADIUS_KM :: real where
  "EARTH_RADIUS_KM = 6371"

definition toRadians :: "real \<Rightarrow> real" where
  "toRadians degrees = degrees * (pi / 180)"

definition atan2 :: "real \<Rightarrow> real \<Rightarrow> real" where
  "atan2 y x =
     (if 0 < x then arctan (y / x)
      else if x < 0 \<and> 0 \<le> y then arctan (y / x) + pi
      else if x < 0 \<and> y < 0 then arctan (y / x) - pi
      else if 0 < y then pi / 2
      else if y < 0 then - (pi / 2)
      else 0)"

definition calculateDistanceKm :: "Coordinates \<Rightarrow> Coordinates \<Rightarrow> real" where
  "calculateDistanceKm from to =
     (let dLat = toRadians (latitude to - latitude from);
          dLon = toRadians (longitude to - longitude from);
          a = sin (dLat / 2) * sin (dLat / 2) +
              cos (toRadians (latitude from)) *
                cos (toRadians (latitude to)) *
                sin (dLon / 2) *
                sin (dLon / 2);
          c = 2 * atan2 (sqrt a) (sqrt (1 - a))
      in EARTH_RADIUS_KM * c)"

section \<open>Travel state machine (context/TravelContext.tsx)\<close>

record HomeBaseLocation =
  coordinates :: Coordinates
  cityName :: string
  countryCode :: "string option"

datatype Override = auto | force_on | force_off

record TravelSettings =
  enabled :: bool
  homeBase :: "HomeBaseLocation option"
  override :: Override
  distanceThresholdKm :: real
  jamaDhuhrAsr :: bool
  jamaMaghribIsha :: bool
  maxTravelDays :: int
  travelStartDate :: "isoDate option"
  autoConfirmed :: bool

record Qasr =
  dhuhr :: bool
  asr :: bool
  isha :: bool

record TravelState =
  isTraveling :: bool
  travelPending :: bool
  distanceFromHomeKm :: "real option"
  isAutoDetected :: bool
  qasr :: Qasr
  jamaDhuhrAsr :: bool
  jamaMaghribIsha :: bool

definition defaultTravelState :: TravelState where
  "defaultTravelState =
     \<lparr> isTraveling = False,
       travelPending = False,
       distanceFromHomeKm = None,
       isAutoDetected = False,
       qasr = \<lparr> dhuhr = False, asr = False, isha = False \<rparr>,
       jamaDhuhrAsr = False,
       jamaMaghribIsha = False \<rparr>"

text \<open>
  The \<open>useMemo\<close> body of \<open>TravelProvider\<close>. Its inputs are the travel settings, the
  current location, the session's \<open>dismissed\<close> flag and the clock (\<open>new Date()\<close>).
  It returns a fresh status and has no access to the settings' setter.
\<close>

definition travelDetection :: "TravelSettings \<Rightarrow> real \<Rightarrow> bool \<Rightarrow> bool \<times> bool \<times> bool" where
  \<comment> \<open>lines 55-72: the triple (isTraveling, isAutoDetected, travelPending)\<close>
  "travelDetection travel distance dismissed =
     (if override travel = force_on then (True, False, False)
      else
        let aboveThreshold = (distance \<ge> distanceThresholdKm travel) in
        if aboveThreshold \<and> autoConfirmed travel then (True, True, False)
        else if aboveThreshold \<and> \<not> autoConfirmed travel then (False, False, \<not> dismissed)
        else (False, False, False))"

definition travelExpired :: "TravelSettings \<Rightarrow> instant \<Rightarrow> bool" where
  \<comment> \<open>lines 75-82: the guard under which a traveling status is switched off\<close>
  "travelExpired travel now =
     (maxTravelDays travel > 0 \<and>
      (case travelStartDate travel of
         None \<Rightarrow> False
       | Some start \<Rightarrow>
           let daysDiff = real_of_int (now - dateGetTime start) / real_of_int msPerDay
           in daysDiff > real_of_int (maxTravelDays travel)))"

definition travelState :: "TravelSettings \<Rightarrow> Coordinates \<Rightarrow> bool \<Rightarrow> instant \<Rightarrow> TravelState" where
  "travelState travel location dismissed now =
     (case homeBase travel of
        None \<Rightarrow> defaultTravelState
      | Some home \<Rightarrow>
          if \<not> enabled travel then defaultTravelState
          else if override travel = force_off then defaultTravelState
          else
            let distance = calculateDistanceKm (coordinates home) location;
                (isTraveling0, isAutoDetected', travelPending') =
                   travelDetection travel distance dismissed;
                isTraveling' = (if isTraveling0 \<and> travelExpired travel now then False
                                else isTraveling0)
            in
              if \<not> isTraveling' \<and> \<not> travelPending' then
                defaultTravelState \<lparr> distanceFromHomeKm := Some distance \<rparr>
              else if travelPending' then
                defaultTravelState \<lparr> travelPending := True,
                                     distanceFromHomeKm := Some distance \<rparr>
              else
                \<lparr> isTraveling = True,
                  travelPending = False,
                  distanceFromHomeKm = Some distance,
                  isAutoDetected = isAutoDetected',
                  qasr = \<lparr> dhuhr = True, asr = True, isha = True \<rparr>,
                  jamaDhuhrAsr = TravelSettings.jamaDhuhrAsr travel,
                  jamaMaghribIsha = TravelSettings.jamaMaghribIsha travel \<rparr>)"

text \<open>
  The session state of the provider: the \<open>dismissed\<close> flag (\<open>useState\<close>) and the last
  distance seen by the auto-reset effect (\<open>prevDistanceRef\<close>).
\<close>

record Session =
  dismissed :: bool
  prevDistanceRef :: "real option"

definition autoResetEffect ::
  "TravelSettings \<Rightarrow> Session \<Rightarrow> Coordinates \<Rightarrow> TravelSettings \<times> Session" where
  \<comment> \<open>the \<open>useEffect\<close> of lines 110-133, run on every settings or location change\<close>
  "autoResetEffect travel sess location =
     (case homeBase travel of
        None \<Rightarrow> (travel, sess)
      | Some home \<Rightarrow>
          if \<not> enabled travel then (travel, sess)
          else
            let distance = calculateDistanceKm (coordinates home) location;
                prevDistance = prevDistanceRef sess;
                sess1 = sess \<lparr> prevDistanceRef := Some distance \<rparr>
            in
              if autoConfirmed travel \<and>
                 (case prevDistance of
                    None \<Rightarrow> False
                  | Some prev \<Rightarrow> prev \<ge> distanceThresholdKm travel) \<and>
                 distance < distanceThresholdKm travel
              then (travel \<lparr> autoConfirmed := False, travelStartDate := None \<rparr>,
                    sess1 \<lparr> dismissed := False \<rparr>)
              else (travel, sess1))"

definition confirmTravel ::
  "TravelSettings \<Rightarrow> Session \<Rightarrow> instant \<Rightarrow> TravelSettings \<times> Session" where
  "confirmTravel travel sess now =
     (travel \<lparr> autoConfirmed := True, travelStartDate := Some (todayISO now) \<rparr>,
      sess \<lparr> dismissed := False \<rparr>)"

definition dismissTravel :: "Session \<Rightarrow> Session" where
  "dismissTravel sess = sess \<lparr> dismissed := True \<rparr>"

definition setTravelOverride :: "TravelSettings \<Rightarrow> Override \<Rightarrow> instant \<Rightarrow> TravelSettings" where
  "setTravelOverride travel ov now =
     (if ov = force_on \<and> travelStartDate travel = None
      then travel \<lparr> override := ov, travelStartDate := Some (todayISO now) \<rparr>
      else travel \<lparr> override := ov \<rparr>)"

definition toggleTravelEnabled :: "TravelSettings \<Rightarrow> instant \<Rightarrow> TravelSettings" where
  "toggleTravelEnabled travel now =
     (let newEnabled = \<not> enabled travel in
      if newEnabled \<and> travelStartDate travel = None
      then travel \<lparr> enabled := newEnabled, travelStartDate := Some (todayISO now) \<rparr>
      else travel \<lparr> enabled := newEnabled \<rparr>)"

section \<open>Settings and prayer times (types)\<close>

datatype PrayerName = Fajr | Sunrise | Dhuhr | Asr | Maghrib | Isha

datatype OptionalPrayerName = MiddleOfNight | LastThirdOfNight | Tahajjud

datatype AllPrayerNames = Core PrayerName | Optional OptionalPrayerName

record PrayerTime =
  name :: AllPrayerNames
  label :: string
  time :: instant

datatype CalculationMethod =
    MuslimWorldLeague | Egyptian | Karachi | UmmAlQura | Dubai | MoonsightingCommittee
  | NorthAmerica | Kuwait | Qatar | Singapore | Tehran | Turkey

datatype AsrCalculation = Standard | Hanafi

type_synonym NotificationSound = string

record PrayerNotificationSettings =
  enabled :: bool
  reminderMinutes :: int
  atPrayerTime :: bool
  sound :: NotificationSound

record NotificationSettings =
  enabled :: bool
  defaultSound :: NotificationSound
  defaultReminderMinutes :: int
  prayers :: "PrayerName \<Rightarrow> PrayerNotificationSettings"

record JumuahTime =
  khutbah :: string
  iqamah :: string

record JumuahSettings =
  enabled :: bool
  masjidName :: string
  times :: "JumuahTime list"
  reminderMinutes :: int

record AthanSettings =
  selectedAthanId :: "string option"
  selectedFajrAthanId :: "string option"
  currentChannelId :: "string option"
  currentFajrChannelId :: "string option"

record Settings =
  calculationMethod :: CalculationMethod
  asrCalculation :: AsrCalculation
  notifications :: NotificationSettings
  jumuah :: JumuahSettings
  travel :: TravelSettings
  athan :: AthanSettings

text \<open>
  The prayer-time source \<open>calculatePrayerTimes\<close> (services/prayerService) wraps an
  astronomy library and the spec treats it as an external collaborator; the scheduler is
  modelled with it as a parameter and uses only the \<open>prayers\<close> field of its result.
\<close>

type_synonym PrayerTimesFn =
  "Coordinates \<Rightarrow> instant \<Rightarrow> CalculationMethod \<Rightarrow> AsrCalculation \<Rightarrow> PrayerTime list"

section \<open>The scheduling service (@capacitor/local-notifications)\<close>

record LocalNotification =
  notifId :: int
  title :: string
  body :: string
  scheduleAt :: instant
  allowWhileIdle :: bool
  sound :: string
  channelId :: "string option"
  smallIcon :: string
  largeIcon :: string

datatype PermissionState = prompt | prompt_with_rationale | granted | denied

datatype PluginMethod =
  checkPermissions | requestPermissions | getPending | cancel | schedule

datatype PluginCall =
    CheckPermissions
  | RequestPermissions
  | GetPending
  | Cancel "int list"
  | Schedule "LocalNotification list"

datatype error = PluginError PluginMethod

text \<open>
  The state of the external service as the code can observe it: the pending
  notifications, the permission it reports (\<open>display\<close>), the answer the user gives
  when asked (\<open>promptAnswer\<close>), which of its methods reject (\<open>throws\<close>), and the log of
  calls made so far. Scheduling a notification whose id is already pending replaces
  the pending one, as the platform implementations do.
\<close>

record Plugin =
  pending :: "LocalNotification list"
  display :: PermissionState
  promptAnswer :: PermissionState
  throws :: "PluginMethod \<Rightarrow> bool"
  calls :: "PluginCall list"

definition logCall :: "PluginCall \<Rightarrow> Plugin \<Rightarrow> Plugin" where
  "logCall c p = p \<lparr> calls := calls p @ [c] \<rparr>"

definition LN_checkPermissions :: "Plugin \<Rightarrow> (error + PermissionState) \<times> Plugin" where
  "LN_checkPermissions p =
     (let p1 = logCall CheckPermissions p in
      if throws p checkPermissions then (Inl (PluginError checkPermissions), p1)
      else (Inr (display p), p1))"

definition LN_requestPermissions :: "Plugin \<Rightarrow> (error + PermissionState) \<times> Plugin" where
  "LN_requestPermissions p =
     (let p1 = logCall RequestPermissions p in
      if throws p requestPermissions then (Inl (PluginError requestPermissions), p1)
      else (Inr (promptAnswer p), p1 \<lparr> display := promptAnswer p \<rparr>))"

definition LN_getPending :: "Plugin \<Rightarrow> (error + LocalNotification list) \<times> Plugin" where
  "LN_getPending p =
     (let p1 = logCall GetPending p in
      if throws p getPending then (Inl (PluginError getPending), p1)
      else (Inr (pending p), p1))"

definition LN_cancel :: "int list \<Rightarrow> Plugin \<Rightarrow> (error + unit) \<times> Plugin" where
  "LN_cancel ids p =
     (let p1 = logCall (Cancel ids) p in
      if throws p cancel then (Inl (PluginError cancel), p1)
      else (Inr (), p1 \<lparr> pending := filter (\<lambda>n. notifId n \<notin> set ids) (pending p) \<rparr>))"

definition upsert :: "LocalNotification \<Rightarrow> LocalNotification list \<Rightarrow> LocalNotification list" where
  "upsert n ps = filter (\<lambda>m. notifId m \<noteq> notifId n) ps @ [n]"

definition LN_schedule :: "LocalNotification list \<Rightarrow> Plugin \<Rightarrow> (error + unit) \<times> Plugin" where
  "LN_schedule ns p =
     (let p1 = logCall (Schedule ns) p in
      if throws p schedule then (Inl (PluginError schedule), p1)
      else (Inr (), p1 \<lparr> pending := fold upsert ns (pending p) \<rparr>))"

section \<open>Notification scheduler (notificationService, second part of services/athanService.ts)\<close>

definition PRAYER_BASE_IDS :: "PrayerName \<Rightarrow> int" where
  "PRAYER_BASE_IDS p =
     (case p of Fajr \<Rightarrow> 100 | Sunrise \<Rightarrow> 200 | Dhuhr \<Rightarrow> 300
              | Asr \<Rightarrow> 400 | Maghrib \<Rightarrow> 500 | Isha \<Rightarrow> 600)"

definition JUMUAH_BASE_ID :: int where
  "JUMUAH_BASE_ID = 700"

definition AT_TIME_OFFSET :: int where
  "AT_TIME_OFFSET = 1"

definition DAYS_TO_SCHEDULE :: nat where
  "DAYS_TO_SCHEDULE = 7"

definition WEEKS_TO_SCHEDULE_JUMUAH :: nat where
  "WEEKS_TO_SCHEDULE_JUMUAH = 4"

definition PRAYER_MESSAGES_reminder :: "PrayerName \<Rightarrow> string" where
  "PRAYER_MESSAGES_reminder p =
     (case p of
        Fajr \<Rightarrow> ''Fajr prayer coming soon''
      | Sunrise \<Rightarrow> ''Sunrise is approaching''
      | Dhuhr \<Rightarrow> ''Dhuhr prayer coming soon''
      | Asr \<Rightarrow> ''Asr prayer coming soon''
      | Maghrib \<Rightarrow> ''Maghrib prayer coming soon''
      | Isha \<Rightarrow> ''Isha prayer coming soon'')"

definition PRAYER_MESSAGES_atTime :: "PrayerName \<Rightarrow> string" where
  "PRAYER_MESSAGES_atTime p =
     (case p of
        Fajr \<Rightarrow> ''Time for Fajr prayer''
      | Sunrise \<Rightarrow> ''The sun has risen''
      | Dhuhr \<Rightarrow> ''Time for Dhuhr prayer''
      | Asr \<Rightarrow> ''Time for Asr prayer''
      | Maghrib \<Rightarrow> ''Time for Maghrib prayer''
      | Isha \<Rightarrow> ''Time for Isha prayer'')"

definition BUILT_IN_SOUNDS :: "string \<Rightarrow> string option" where
  "BUILT_IN_SOUNDS s =
     (if s = ''default'' then None
      else if s = ''adhan'' then Some ''adhan.wav''
      else if s = ''adhan_fajr'' then Some ''adhan_fajr.wav''
      else if s = ''silent'' then Some ''silent.wav''
      else None)"

text \<open>Decimal rendering of a number inside a template string (integers only).\<close>

fun showNat :: "nat \<Rightarrow> string" where
  "showNat n =
     (if n < 10 then [''0123456789'' ! n]
      else showNat (n div 10) @ [''0123456789'' ! (n mod 10)])"

declare showNat.simps [simp del]

definition showInt :: "int \<Rightarrow> string" where
  "showInt i = (if i < 0 then CHR ''-'' # showNat (nat (- i)) else showNat (nat i))"

definition getNotificationId :: "PrayerName \<Rightarrow> nat \<Rightarrow> bool \<Rightarrow> int" where
  "getNotificationId prayer dayOffset isAtTime =
     (let baseId = PRAYER_BASE_IDS prayer;
          timeOffset = (if isAtTime then AT_TIME_OFFSET else 0)
      in baseId + (int dayOffset * 10) + timeOffset)"

definition requestNotificationPermission :: "Plugin \<Rightarrow> bool \<times> Plugin" where
  "requestNotificationPermission p =
     (case LN_checkPermissions p of
        (Inl e, p1) \<Rightarrow> (False, p1)
      | (Inr permission, p1) \<Rightarrow>
          if permission = granted then (True, p1)
          else if permission = denied then (False, p1)
          else
            (case LN_requestPermissions p1 of
               (Inl e, p2) \<Rightarrow> (False, p2)
             | (Inr result, p2) \<Rightarrow> (result = granted, p2)))"

definition isDownloadedAthan :: "NotificationSound \<Rightarrow> bool" where
  "isDownloadedAthan sn = (take 6 sn = ''athan:'')"

fun replaceFirst :: "string \<Rightarrow> string \<Rightarrow> string" where
  "replaceFirst pat [] = []"
| "replaceFirst pat (c # cs) =
     (if take (length pat) (c # cs) = pat then drop (length pat) (c # cs)
      else c # replaceFirst pat cs)"

definition getAthanIdFromSound :: "NotificationSound \<Rightarrow> string" where
  "getAthanIdFromSound sn = replaceFirst ''athan:'' sn"

definition getSoundForNotification :: "NotificationSound \<Rightarrow> string option" where
  "getSoundForNotification sn =
     (if isDownloadedAthan sn then None else BUILT_IN_SOUNDS sn)"

definition truthy :: "string option \<Rightarrow> bool" where
  \<comment> \<open>JavaScript truthiness of a \<open>string | null | undefined\<close>\<close>
  "truthy v = (case v of None \<Rightarrow> False | Some s \<Rightarrow> s \<noteq> [])"

definition resolveChannelId ::
  "PrayerName \<Rightarrow> NotificationSound \<Rightarrow> AthanSettings \<Rightarrow> string option" where
  "resolveChannelId prayer sn athanSettings =
     (if isDownloadedAthan sn then
        (let athanId = getAthanIdFromSound sn in
         if prayer = Fajr \<and> selectedFajrAthanId athanSettings = Some athanId \<and>
            truthy (currentFajrChannelId athanSettings)
         then currentFajrChannelId athanSettings
         else if selectedAthanId athanSettings = Some athanId \<and>
                 truthy (currentChannelId athanSettings)
         then currentChannelId athanSettings
         else if truthy (currentChannelId athanSettings)
         then currentChannelId athanSettings
         else None)
      else if prayer = Fajr \<and> (sn = ''adhan_fajr'' \<or> sn = ''adhan'') \<and>
              truthy (currentFajrChannelId athanSettings)
      then currentFajrChannelId athanSettings
      else if (sn = ''adhan'' \<or> sn = ''adhan_fajr'') \<and>
              truthy (currentChannelId athanSettings)
      then currentChannelId athanSettings
      else None)"

definition soundOrDefault :: "string option \<Rightarrow> string" where
  \<comment> \<open>\<open>sound || 'default'\<close>\<close>
  "soundOrDefault v = (if truthy v then the v else ''default'')"

subsection \<open>Daily prayer notifications\<close>

definition reminderNotification ::
  "Settings \<Rightarrow> PrayerName \<Rightarrow> string \<Rightarrow> nat \<Rightarrow> instant \<Rightarrow> LocalNotification" where
  \<comment> \<open>the object pushed at lines 305-317\<close>
  "reminderNotification settings pn lbl dayOffset reminderTime =
     (let prayerSettings = prayers (notifications settings) pn;
          snd' = getSoundForNotification (PrayerNotificationSettings.sound prayerSettings);
          channel = resolveChannelId pn (PrayerNotificationSettings.sound prayerSettings)
                      (athan settings)
      in \<lparr> notifId = getNotificationId pn dayOffset False,
           title = lbl,
           body = PRAYER_MESSAGES_reminder pn @ '' - in '' @
                  showInt (PrayerNotificationSettings.reminderMinutes prayerSettings) @ '' min'',
           scheduleAt = reminderTime,
           allowWhileIdle = True,
           sound = soundOrDefault snd',
           channelId = channel,
           smallIcon = ''ic_stat_icon'',
           largeIcon = ''ic_launcher'' \<rparr>)"

definition atTimeNotification ::
  "Settings \<Rightarrow> PrayerName \<Rightarrow> string \<Rightarrow> nat \<Rightarrow> instant \<Rightarrow> LocalNotification" where
  \<comment> \<open>the object pushed at lines 325-337\<close>
  "atTimeNotification settings pn lbl dayOffset prayerTime =
     (let prayerSettings = prayers (notifications settings) pn;
          snd' = getSoundForNotification (PrayerNotificationSettings.sound prayerSettings);
          channel = resolveChannelId pn (PrayerNotificationSettings.sound prayerSettings)
                      (athan settings)
      in \<lparr> notifId = getNotificationId pn dayOffset True,
           title = lbl,
           body = PRAYER_MESSAGES_atTime pn @ '' - now'',
           scheduleAt = prayerTime,
           allowWhileIdle = True,
           sound = soundOrDefault snd',
           channelId = channel,
           smallIcon = ''ic_stat_icon'',
           largeIcon = ''ic_launcher'' \<rparr>)"

definition notificationsForPrayer ::
  "Settings \<Rightarrow> instant \<Rightarrow> nat \<Rightarrow> PrayerTime \<Rightarrow> LocalNotification list" where
  \<comment> \<open>one iteration of the inner loop, lines 290-339\<close>
  "notificationsForPrayer settings now dayOffset prayer =
     (case name prayer of
        Optional opt \<Rightarrow> []
      | Core pn \<Rightarrow>
          let prayerSettings = prayers (notifications settings) pn in
          if \<not> PrayerNotificationSettings.enabled prayerSettings then []
          else
            let prayerTime = time prayer in
            (if PrayerNotificationSettings.reminderMinutes prayerSettings > 0 then
               (let reminderTime =
                      prayerTime - PrayerNotificationSettings.reminderMinutes prayerSettings * 60000
                in if reminderTime > now
                   then [reminderNotification settings pn (label prayer) dayOffset reminderTime]
                   else [])
             else []) @
            (if atPrayerTime prayerSettings \<and> prayerTime > now
             then [atTimeNotification settings pn (label prayer) dayOffset prayerTime]
             else []))"

definition addDays :: "instant \<Rightarrow> int \<Rightarrow> instant" where
  \<comment> \<open>\<open>d.setDate(d.getDate() + k)\<close>\<close>
  "addDays t k = t + k * msPerDay"

definition notificationsForDay ::
  "PrayerTimesFn \<Rightarrow> Coordinates \<Rightarrow> Settings \<Rightarrow> instant \<Rightarrow> nat \<Rightarrow> LocalNotification list" where
  \<comment> \<open>one iteration of the outer loop, lines 279-340\<close>
  "notificationsForDay calculatePrayerTimes coords settings now dayOffset =
     (let targetDate = addDays now (int dayOffset);
          prayerList = calculatePrayerTimes coords targetDate
                         (calculationMethod settings) (asrCalculation settings)
      in concat (map (notificationsForPrayer settings now dayOffset) prayerList))"

definition dailyNotifications ::
  "PrayerTimesFn \<Rightarrow> Coordinates \<Rightarrow> Settings \<Rightarrow> instant \<Rightarrow> LocalNotification list" where
  \<comment> \<open>the array \<open>notifications\<close> after the loops\<close>
  "dailyNotifications calculatePrayerTimes coords settings now =
     concat (map (notificationsForDay calculatePrayerTimes coords settings now)
                 [0 ..< DAYS_TO_SCHEDULE])"

definition cancelAllNotifications :: "Plugin \<Rightarrow> Plugin" where
  "cancelAllNotifications p =
     (case LN_getPending p of
        (Inl e, p1) \<Rightarrow> p1
      | (Inr pend, p1) \<Rightarrow>
          if length pend > 0 then
            (case LN_cancel (map notifId pend) p1 of
               (Inl e, p2) \<Rightarrow> p2
             | (Inr u, p2) \<Rightarrow> p2)
          else p1)"

definition submit :: "LocalNotification list \<Rightarrow> Plugin \<Rightarrow> Plugin" where
  \<comment> \<open>the final \<open>if (notifications.length > 0) { try { schedule } catch { log } }\<close>\<close>
  "submit ns p =
     (if length ns > 0 then
        (case LN_schedule ns p of
           (Inl e, p1) \<Rightarrow> p1
         | (Inr u, p1) \<Rightarrow> p1)
      else p)"

definition scheduleNotifications ::
  "PrayerTimesFn \<Rightarrow> instant \<Rightarrow> Coordinates \<Rightarrow> Settings \<Rightarrow> Plugin \<Rightarrow> Plugin" where
  \<comment> \<open>\<open>now\<close> is the value \<open>new Date()\<close> yields at line 275\<close>
  "scheduleNotifications calculatePrayerTimes now coords settings p =
     (if \<not> NotificationSettings.enabled (notifications settings)
      then cancelAllNotifications p
      else
        (case requestNotificationPermission p of
           (hasPermission, p1) \<Rightarrow>
             if \<not> hasPermission then p1
             else
               let p2 = cancelAllNotifications p1;
                   ns = dailyNotifications calculatePrayerTimes coords settings now
               in submit ns p2))"

definition cancelNotification :: "PrayerName \<Rightarrow> Plugin \<Rightarrow> Plugin" where
  "cancelNotification prayer p =
     (case LN_getPending p of
        (Inl e, p1) \<Rightarrow> p1
      | (Inr pend, p1) \<Rightarrow>
          let baseId = PRAYER_BASE_IDS prayer;
              toCancel = filter (\<lambda>n. (notifId n div 100) * 100 = baseId) pend
          in if length toCancel > 0 then
               (case LN_cancel (map notifId toCancel) p1 of
                  (Inl e, p2) \<Rightarrow> p2
                | (Inr u, p2) \<Rightarrow> p2)
             else p1)"

subsection \<open>Weekly Jumu'ah notifications\<close>

definition inJumuahBand :: "int \<Rightarrow> bool" where
  "inJumuahBand i = (i \<ge> JUMUAH_BASE_ID \<and> i < 800)"

definition cancelJumuahNotifications :: "Plugin \<Rightarrow> Plugin" where
  "cancelJumuahNotifications p =
     (case LN_getPending p of
        (Inl e, p1) \<Rightarrow> p1
      | (Inr pend, p1) \<Rightarrow>
          let jumuahNotifications = filter (\<lambda>n. inJumuahBand (notifId n)) pend
          in if length jumuahNotifications > 0 then
               (case LN_cancel (map notifId jumuahNotifications) p1 of
                  (Inl e, p2) \<Rightarrow> p2
                | (Inr u, p2) \<Rightarrow> p2)
             else p1)"

definition getDay :: "instant \<Rightarrow> int" where
  \<comment> \<open>day of the week, 0 = Sunday; 1970-01-01 was a Thursday\<close>
  "getDay t = (t div msPerDay + 4) mod 7"

definition setHours :: "instant \<Rightarrow> int \<Rightarrow> int \<Rightarrow> instant" where
  \<comment> \<open>\<open>d.setHours(h, m, 0, 0)\<close>; out-of-range minutes carry over\<close>
  "setHours t h m = (t div msPerDay) * msPerDay + h * 3600000 + m * 60000"

fun splitOn :: "char \<Rightarrow> string \<Rightarrow> string list" where
  "splitOn sep [] = [[]]"
| "splitOn sep (c # cs) =
     (if c = sep then [] # splitOn sep cs
      else (case splitOn sep cs of
              [] \<Rightarrow> [[c]]
            | part # parts \<Rightarrow> (c # part) # parts))"

definition isDigit :: "char \<Rightarrow> bool" where
  "isDigit c = (c \<in> set ''0123456789'')"

definition digitValue :: "char \<Rightarrow> int" where
  "digitValue c = int (of_char c) - 48"

text \<open>
  \<open>Number(s)\<close> on the strings a time input produces: a run of decimal digits (the empty
  string is \<open>0\<close>). \<open>None\<close> stands for \<open>NaN\<close>; other numeric spellings (signs, fractions,
  exponents, surrounding blanks) are outside the \<open>HH:MM\<close> format and are not modelled.
\<close>

definition Number :: "string \<Rightarrow> int option" where
  "Number s =
     (if list_all isDigit s then Some (foldl (\<lambda>acc c. acc * 10 + digitValue c) 0 s)
      else None)"

definition parseKhutbah :: "string \<Rightarrow> int option \<times> int option" where
  \<comment> \<open>\<open>const [khutbahHour, khutbahMinute] = time.khutbah.split(':').map(Number)\<close>\<close>
  "parseKhutbah s =
     (case map Number (splitOn CHR '':'' s) of
        [] \<Rightarrow> (None, None)
      | [h] \<Rightarrow> (h, None)
      | h # m # rest \<Rightarrow> (h, m))"

definition daysUntilFriday :: "instant \<Rightarrow> int" where
  \<comment> \<open>\<open>(5 - now.getDay() + 7) % 7 || 7\<close>\<close>
  "daysUntilFriday now =
     (let d = (5 - getDay now + 7) mod 7 in if d = 0 then 7 else d)"

definition jumuahReminderTime ::
  "JumuahSettings \<Rightarrow> instant \<Rightarrow> nat \<Rightarrow> JumuahTime \<Rightarrow> instant option" where
  \<comment> \<open>lines 444-454; \<open>None\<close> is an invalid date (a \<open>NaN\<close> hour or minute)\<close>
  "jumuahReminderTime jumuahSettings now weekOffset slot =
     (let nextFriday = addDays now (daysUntilFriday now + (int weekOffset * 7)) in
      case parseKhutbah (khutbah slot) of
        (Some khutbahHour, Some khutbahMinute) \<Rightarrow>
          Some (setHours nextFriday khutbahHour
                  (khutbahMinute - JumuahSettings.reminderMinutes jumuahSettings))
      | _ \<Rightarrow> None)"

definition jumuahNotification ::
  "JumuahSettings \<Rightarrow> nat \<Rightarrow> nat \<Rightarrow> instant \<Rightarrow> LocalNotification" where
  \<comment> \<open>the object pushed at lines 464-475\<close>
  "jumuahNotification jumuahSettings weekOffset timeIndex reminderTime =
     (let notificationId = JUMUAH_BASE_ID + (int weekOffset * 10) + int timeIndex;
          masjidText = (if masjidName jumuahSettings \<noteq> []
                        then '' at '' @ masjidName jumuahSettings else [])
      in \<lparr> notifId = notificationId,
           title = ''Jumu'' @ [CHR 0x27] @ ''ah Prayer'',
           body = ''Khutbah starts in '' @
                  showInt (JumuahSettings.reminderMinutes jumuahSettings) @ '' min'' @ masjidText,
           scheduleAt = reminderTime,
           allowWhileIdle = True,
           sound = ''default'',
           channelId = None,
           smallIcon = ''ic_stat_icon'',
           largeIcon = ''ic_launcher'' \<rparr>)"

definition notificationsForSlot ::
  "JumuahSettings \<Rightarrow> instant \<Rightarrow> nat \<Rightarrow> nat \<times> JumuahTime \<Rightarrow> LocalNotification list" where
  \<comment> \<open>the \<open>forEach\<close> callback, lines 449-477\<close>
  "notificationsForSlot jumuahSettings now weekOffset indexed =
     (case indexed of (timeIndex, slot) \<Rightarrow>
        (case jumuahReminderTime jumuahSettings now weekOffset slot of
           None \<Rightarrow> []
         | Some reminderTime \<Rightarrow>
             if reminderTime > now
             then [jumuahNotification jumuahSettings weekOffset timeIndex reminderTime]
             else []))"

definition notificationsForWeek ::
  "JumuahSettings \<Rightarrow> instant \<Rightarrow> nat \<Rightarrow> LocalNotification list" where
  "notificationsForWeek jumuahSettings now weekOffset =
     concat (map (notificationsForSlot jumuahSettings now weekOffset)
                 (enumerate 0 (times jumuahSettings)))"

definition jumuahNotifications :: "JumuahSettings \<Rightarrow> instant \<Rightarrow> LocalNotification list" where
  \<comment> \<open>the array \<open>notifications\<close> after the loops\<close>
  "jumuahNotifications jumuahSettings now =
     concat (map (notificationsForWeek jumuahSettings now) [0 ..< WEEKS_TO_SCHEDULE_JUMUAH])"

definition scheduleJumuahNotifications :: "instant \<Rightarrow> JumuahSettings \<Rightarrow> Plugin \<Rightarrow> Plugin" where
  \<comment> \<open>\<open>now\<close> is the value \<open>new Date()\<close> yields at line 438\<close>
  "scheduleJumuahNotifications now jumuahSettings p =
     (let p1 = cancelJumuahNotifications p in
      if \<not> JumuahSettings.enabled jumuahSettings \<or> length (times jumuahSettings) = 0 then p1
      else
        (case requestNotificationPermission p1 of
           (hasPermission, p2) \<Rightarrow>
             if \<not> hasPermission then p2
             else submit (jumuahNotifications jumuahSettings now) p2))"

section \<open>Derived notions used in the statements\<close>

definition permitted :: "Plugin \<Rightarrow> bool" where
  \<comment> \<open>what \<open>requestNotificationPermission\<close> answers in a given state of the service\<close>
  "permitted p = fst (requestNotificationPermission p)"

definition isSchedule :: "PluginCall \<Rightarrow> bool" where
  "isSchedule c = (case c of Schedule ns \<Rightarrow> True | _ \<Rightarrow> False)"

definition isCancel :: "PluginCall \<Rightarrow> bool" where
  "isCancel c = (case c of Cancel ids \<Rightarrow> True | _ \<Rightarrow> False)"





section \<open>Concrete inputs\<close>

definition homeOrigin :: HomeBaseLocation where
  "homeOrigin =
     \<lparr> coordinates = \<lparr> latitude = 0, longitude = 0 \<rparr>, cityName = ''Home'',
       countryCode = None \<rparr>"

definition atHome :: Coordinates where
  "atHome = \<lparr> latitude = 0, longitude = 0 \<rparr>"

definition farAway :: Coordinates where
  \<comment> \<open>the antipode of \<open>homeOrigin\<close>\<close>
  "farAway = \<lparr> latitude = 0, longitude = 180 \<rparr>"

definition travelBase :: TravelSettings where
  \<comment> \<open>confirmed automatic travel that started on day 19000 (2022-01-08), limit 4 days\<close>
  "travelBase =
     \<lparr> TravelSettings.enabled = True, homeBase = Some homeOrigin, override = auto,
       distanceThresholdKm = 887 / 10, TravelSettings.jamaDhuhrAsr = False,
       TravelSettings.jamaMaghribIsha = False, maxTravelDays = 4,
       travelStartDate = Some 19000, autoConfirmed = True \<rparr>"

definition freshSession :: Session where
  "freshSession = \<lparr> dismissed = False, prevDistanceRef = None \<rparr>"

definition defaultPrayerNotification :: PrayerNotificationSettings where
  "defaultPrayerNotification =
     \<lparr> PrayerNotificationSettings.enabled = True,
       PrayerNotificationSettings.reminderMinutes = 15,
       atPrayerTime = True,
       PrayerNotificationSettings.sound = ''default'' \<rparr>"

definition defaultJumuahSettings :: JumuahSettings where
  "defaultJumuahSettings =
     \<lparr> JumuahSettings.enabled = False, masjidName = [],
       times = [\<lparr> khutbah = ''13:00'', iqamah = ''13:30'' \<rparr>],
       reminderMinutes = 30 \<rparr>"

definition defaultAthanSettings :: AthanSettings where
  "defaultAthanSettings =
     \<lparr> selectedAthanId = None, selectedFajrAthanId = None,
       currentChannelId = None, currentFajrChannelId = None \<rparr>"

definition exampleSettings :: Settings where
  \<comment> \<open>all notifications on, Jumu'ah on with two sessions\<close>
  "exampleSettings =
     \<lparr> calculationMethod = NorthAmerica, asrCalculation = Standard,
       notifications =
         \<lparr> NotificationSettings.enabled = True, defaultSound = ''default'',
           defaultReminderMinutes = 15, prayers = (\<lambda>pn. defaultPrayerNotification) \<rparr>,
       jumuah =
         defaultJumuahSettings
           \<lparr> JumuahSettings.enabled := True,
             times := [\<lparr> khutbah = ''13:00'', iqamah = ''13:30'' \<rparr>,
                       \<lparr> khutbah = ''14:00'', iqamah = ''14:30'' \<rparr>] \<rparr>,
       travel = travelBase,
       athan = defaultAthanSettings \<rparr>"

definition disabledSettings :: Settings where
  "disabledSettings =
     exampleSettings
       \<lparr> notifications := (notifications exampleSettings) \<lparr> NotificationSettings.enabled := False \<rparr> \<rparr>"

definition examplePrayerTimes :: PrayerTimesFn where
  \<comment> \<open>a prayer-time source: Fajr at 05:00 and Dhuhr at 12:00 of the target day\<close>
  "examplePrayerTimes coords date method asrRule =
     (let midnight = (date div msPerDay) * msPerDay in
      [\<lparr> name = Core Fajr, label = ''Fajr'', time = midnight + 5 * 3600000 \<rparr>,
       \<lparr> name = Core Dhuhr, label = ''Dhuhr'', time = midnight + 12 * 3600000 \<rparr>])"

definition exampleNow :: instant where
  \<comment> \<open>Thursday 2022-01-06, 08:00\<close>
  "exampleNow = 18998 * msPerDay + 8 * 3600000"

definition examplePlugin :: Plugin where
  \<comment> \<open>permission granted, one Jumu'ah reminder (id 700) pending, no faults\<close>
  "examplePlugin =
     \<lparr> pending = [jumuahNotification (jumuah exampleSettings) 0 0
                    (18999 * msPerDay + 45000000)],
       display = granted, promptAnswer = granted, throws = (\<lambda>m. False), calls = [] \<rparr>"

definition deniedPlugin :: Plugin where
  "deniedPlugin = examplePlugin \<lparr> display := denied \<rparr>"

definition returningSession :: Session where
  \<comment> \<open>the last evaluation saw 100 km from home; the prompt had been dismissed\<close>
  "returningSession = \<lparr> dismissed = True, prevDistanceRef = Some 100 \<rparr>"




section \<open>Auxiliary facts\<close>

subsection \<open>Distances of the concrete inputs\<close>

lemma calculateDistanceKm_same: "calculateDistanceKm c c = 0"
  by (simp add: calculateDistanceKm_def toRadians_def atan2_def)

lemma distance_atHome: "calculateDistanceKm (coordinates homeOrigin) atHome = 0"
  by (simp add: homeOrigin_def atHome_def calculateDistanceKm_same)

lemma distance_farAway: "calculateDistanceKm (coordinates homeOrigin) farAway = 6371 * pi"
  by (simp add: homeOrigin_def farAway_def calculateDistanceKm_def toRadians_def atan2_def
        EARTH_RADIUS_KM_def Let_def)

lemma farAway_above: "(887 / 10 :: real) \<le> 6371 * pi"
  using pi_ge_two by simp

subsection \<open>The service: what each operation leaves alone\<close>

lemma fold_upsert_split:
  "fold upsert ns ps = filter (\<lambda>m. notifId m \<notin> notifId ` set ns) ps @ fold upsert ns []"
proof (induction ns rule: rev_induct)
  case Nil
  then show ?case by simp
next
  case (snoc n ns)
  have "fold upsert (ns @ [n]) ps = upsert n (fold upsert ns ps)" by simp
  also have "\<dots> = upsert n (filter (\<lambda>m. notifId m \<notin> notifId ` set ns) ps @ fold upsert ns [])"
    using snoc.IH by simp
  also have "\<dots> = filter (\<lambda>m. notifId m \<notin> notifId ` set (ns @ [n])) ps @
                    upsert n (fold upsert ns [])"
    by (auto simp add: upsert_def intro: filter_cong)
  finally show ?case by simp
qed

lemma set_fold_upsert_Nil: "set (fold upsert ns []) \<subseteq> set ns"
proof (induction ns rule: rev_induct)
  case Nil
  then show ?case by simp
next
  case (snoc n ns)
  then show ?case by (auto simp add: upsert_def)
qed

lemma fold_upsert_idem: "fold upsert ns (fold upsert ns ps) = fold upsert ns ps"
proof -
  let ?keep = "filter (\<lambda>m. notifId m \<notin> notifId ` set ns)"
  have new: "?keep (fold upsert ns []) = []"
    using set_fold_upsert_Nil[of ns] by (auto simp add: filter_empty_conv)
  have "fold upsert ns (fold upsert ns ps) = ?keep (fold upsert ns ps) @ fold upsert ns []"
    by (rule fold_upsert_split)
  also have "?keep (fold upsert ns ps) = ?keep (?keep ps @ fold upsert ns [])"
    using fold_upsert_split[of ns ps] by simp
  also have "\<dots> = ?keep ps"
    using new by simp
  also have "?keep ps @ fold upsert ns [] = fold upsert ns ps"
    using fold_upsert_split[of ns ps] by simp
  finally show ?thesis .
qed

lemma pending_cancelAll:
  "pending (cancelAllNotifications p) =
     (if throws p getPending \<or> throws p cancel then pending p else [])"
  by (auto simp add: cancelAllNotifications_def LN_getPending_def LN_cancel_def logCall_def
        Let_def filter_empty_conv)

lemma frame_cancelAll:
  "display (cancelAllNotifications p) = display p"
  "promptAnswer (cancelAllNotifications p) = promptAnswer p"
  "throws (cancelAllNotifications p) = throws p"
  by (auto simp add: cancelAllNotifications_def LN_getPending_def LN_cancel_def logCall_def Let_def)

lemma pending_cancelJumuah:
  "pending (cancelJumuahNotifications p) =
     (if throws p getPending \<or> throws p cancel then pending p
      else filter (\<lambda>n. \<not> inJumuahBand (notifId n)) (pending p))"
proof -
  have "filter (\<lambda>n. notifId n \<notin> notifId ` {x \<in> set (pending p). inJumuahBand (notifId x)})
          (pending p)
        = filter (\<lambda>n. \<not> inJumuahBand (notifId n)) (pending p)"
    by (rule filter_cong) auto
  moreover have "filter (\<lambda>n. inJumuahBand (notifId n)) (pending p) = [] \<Longrightarrow>
      filter (\<lambda>n. \<not> inJumuahBand (notifId n)) (pending p) = pending p"
    by (simp add: filter_empty_conv)
  ultimately show ?thesis
    by (simp add: cancelJumuahNotifications_def LN_getPending_def LN_cancel_def logCall_def Let_def)
qed

lemma frame_cancelJumuah:
  "display (cancelJumuahNotifications p) = display p"
  "promptAnswer (cancelJumuahNotifications p) = promptAnswer p"
  "throws (cancelJumuahNotifications p) = throws p"
  by (auto simp add: cancelJumuahNotifications_def LN_getPending_def LN_cancel_def logCall_def
        Let_def)

lemma schedules_cancelJumuah:
  "filter isSchedule (calls (cancelJumuahNotifications p)) = filter isSchedule (calls p)"
  by (auto simp add: cancelJumuahNotifications_def LN_getPending_def LN_cancel_def logCall_def
        Let_def isSchedule_def)

lemma pending_submit:
  "pending (submit ns p) =
     (if ns = [] \<or> throws p schedule then pending p else fold upsert ns (pending p))"
  by (auto simp add: submit_def LN_schedule_def logCall_def Let_def)

lemma frame_submit:
  "display (submit ns p) = display p"
  "promptAnswer (submit ns p) = promptAnswer p"
  "throws (submit ns p) = throws p"
  by (auto simp add: submit_def LN_schedule_def logCall_def Let_def)

lemma frame_request:
  "pending (snd (requestNotificationPermission p)) = pending p"
  "promptAnswer (snd (requestNotificationPermission p)) = promptAnswer p"
  "throws (snd (requestNotificationPermission p)) = throws p"
  by (auto simp add: requestNotificationPermission_def LN_checkPermissions_def
        LN_requestPermissions_def logCall_def Let_def split: PermissionState.splits)

lemma schedules_request:
  "filter isSchedule (calls (snd (requestNotificationPermission p))) = filter isSchedule (calls p)"
  "filter isCancel (calls (snd (requestNotificationPermission p))) = filter isCancel (calls p)"
  by (auto simp add: requestNotificationPermission_def LN_checkPermissions_def
        LN_requestPermissions_def logCall_def Let_def isSchedule_def isCancel_def)

lemma permitted_eq:
  "permitted p =
     (\<not> throws p checkPermissions \<and>
      (display p = granted \<or>
       (display p \<noteq> denied \<and> \<not> throws p requestPermissions \<and> promptAnswer p = granted)))"
  by (auto simp add: permitted_def requestNotificationPermission_def LN_checkPermissions_def
        LN_requestPermissions_def logCall_def Let_def)

lemma display_request:
  "display (snd (requestNotificationPermission p)) =
     (if throws p checkPermissions \<or> display p = granted \<or> display p = denied \<or>
         throws p requestPermissions
      then display p else promptAnswer p)"
  by (auto simp add: requestNotificationPermission_def LN_checkPermissions_def
        LN_requestPermissions_def logCall_def Let_def)

lemma permitted_after:
  assumes "display q = display (snd (requestNotificationPermission p))"
    and "promptAnswer q = promptAnswer p" and "throws q = throws p"
  shows "permitted q = permitted p"
  using assms by (auto simp add: permitted_eq display_request split: if_splits)

lemma permitted_cancelJumuah: "permitted (cancelJumuahNotifications p) = permitted p"
  by (simp add: permitted_eq frame_cancelJumuah)

subsection \<open>The two passes, branch by branch\<close>

lemma scheduleNotifications_eq:
  "scheduleNotifications ptf now coords settings p =
     (if \<not> NotificationSettings.enabled (notifications settings) then cancelAllNotifications p
      else if \<not> permitted p then snd (requestNotificationPermission p)
      else submit (dailyNotifications ptf coords settings now)
             (cancelAllNotifications (snd (requestNotificationPermission p))))"
  by (simp add: scheduleNotifications_def permitted_def case_prod_beta Let_def)

lemma pending_scheduleNotifications:
  "pending (scheduleNotifications ptf now coords settings p) =
     (if \<not> NotificationSettings.enabled (notifications settings)
      then pending (cancelAllNotifications p)
      else if \<not> permitted p then pending p
      else pending (submit (dailyNotifications ptf coords settings now)
                      (cancelAllNotifications (snd (requestNotificationPermission p)))))"
  by (simp add: scheduleNotifications_eq frame_request)

lemma frame_scheduleNotifications:
  "promptAnswer (scheduleNotifications ptf now coords settings p) = promptAnswer p"
  "throws (scheduleNotifications ptf now coords settings p) = throws p"
  "display (scheduleNotifications ptf now coords settings p) =
     (if NotificationSettings.enabled (notifications settings)
      then display (snd (requestNotificationPermission p)) else display p)"
  by (simp_all add: scheduleNotifications_eq frame_cancelAll frame_submit frame_request)

lemma scheduleJumuahNotifications_eq:
  "scheduleJumuahNotifications now js p =
     (if \<not> JumuahSettings.enabled js \<or> times js = [] then cancelJumuahNotifications p
      else if \<not> permitted p then snd (requestNotificationPermission (cancelJumuahNotifications p))
      else submit (jumuahNotifications js now)
             (snd (requestNotificationPermission (cancelJumuahNotifications p))))"
  by (simp add: scheduleJumuahNotifications_def permitted_def[symmetric] case_prod_beta Let_def
        permitted_cancelJumuah)

subsection \<open>The daily batch\<close>

lemma PRAYER_BASE_IDS_range: "100 \<le> PRAYER_BASE_IDS pn \<and> PRAYER_BASE_IDS pn \<le> 600"
  by (cases pn) (simp_all add: PRAYER_BASE_IDS_def)

lemma PRAYER_BASE_IDS_hundreds: "PRAYER_BASE_IDS pn mod 100 = 0"
  by (cases pn) (simp_all add: PRAYER_BASE_IDS_def)

lemma PRAYER_BASE_IDS_inj: "PRAYER_BASE_IDS pn = PRAYER_BASE_IDS pn' \<Longrightarrow> pn = pn'"
  by (cases pn; cases pn') (simp_all add: PRAYER_BASE_IDS_def)

lemma getNotificationId_range:
  "d < DAYS_TO_SCHEDULE \<Longrightarrow> 100 \<le> getNotificationId pn d b \<and> getNotificationId pn d b < 700"
  using PRAYER_BASE_IDS_range[of pn]
  by (simp add: getNotificationId_def DAYS_TO_SCHEDULE_def AT_TIME_OFFSET_def Let_def)


lemma notificationsForPrayer_mem:
  "n \<in> set (notificationsForPrayer settings now d prayer) \<longleftrightarrow>
     (\<exists>pn. name prayer = Core pn \<and>
        PrayerNotificationSettings.enabled (prayers (notifications settings) pn) \<and>
        (n = reminderNotification settings pn (label prayer) d
                (time prayer - PrayerNotificationSettings.reminderMinutes (prayers (notifications settings) pn) * 60000) \<and>
          PrayerNotificationSettings.reminderMinutes (prayers (notifications settings) pn) > 0 \<and>
          time prayer - PrayerNotificationSettings.reminderMinutes (prayers (notifications settings) pn) * 60000 > now \<or>
         n = atTimeNotification settings pn (label prayer) d (time prayer) \<and>
          atPrayerTime (prayers (notifications settings) pn) \<and> time prayer > now))"
proof (cases "name prayer")
  case (Core pn)
  then show ?thesis
    by (auto simp add: notificationsForPrayer_def Let_def)
next
  case (Optional opt)
  then show ?thesis
    by (simp add: notificationsForPrayer_def)
qed

lemma dailyNotifications_mem:
  "n \<in> set (dailyNotifications ptf coords settings now) \<longleftrightarrow>
     (\<exists>d < DAYS_TO_SCHEDULE. \<exists>prayer \<in> set (ptf coords (addDays now (int d)) (calculationMethod settings) (asrCalculation settings)).
        n \<in> set (notificationsForPrayer settings now d prayer))"
  by (auto simp add: dailyNotifications_def notificationsForDay_def Let_def)

lemma notifId_events:
  "notifId (reminderNotification settings pn lbl d t) = getNotificationId pn d False"
  "notifId (atTimeNotification settings pn lbl d t) = getNotificationId pn d True"
  "scheduleAt (reminderNotification settings pn lbl d t) = t"
  "scheduleAt (atTimeNotification settings pn lbl d t) = t"
  by (simp_all add: reminderNotification_def atTimeNotification_def Let_def)

lemma dailyNotifications_ids:
  assumes "n \<in> set (dailyNotifications ptf coords settings now)"
  shows "100 \<le> notifId n \<and> notifId n < 700"
proof -
  from assms obtain d prayer where d: "d < DAYS_TO_SCHEDULE"
    and n: "n \<in> set (notificationsForPrayer settings now d prayer)"
    by (auto simp add: dailyNotifications_mem)
  from n obtain pn b where "notifId n = getNotificationId pn d b"
    by (auto simp add: notificationsForPrayer_mem notifId_events)
  with getNotificationId_range[OF d, of pn b] show ?thesis by simp
qed


subsection \<open>The weekly batch\<close>

















section \<open>Travel state machine: claims C4 to C7\<close>

text \<open>
  Claim C4, as amended: for every settings state, \<open>confirmTravel\<close> sets \<open>autoConfirmed\<close>
  to true, clears the session's \<open>dismissed\<close> flag and sets \<open>travelStartDate\<close> to today's
  date whether or not a start date was set before; nothing else changes.
\<close>

theorem confirmTravel_sets_today:
  "autoConfirmed (fst (confirmTravel tr sess now)) = True \<and>
   dismissed (snd (confirmTravel tr sess now)) = False \<and>
   travelStartDate (fst (confirmTravel tr sess now)) = Some (todayISO now) \<and>
   fst (confirmTravel tr sess now) =
     tr \<lparr> autoConfirmed := True, travelStartDate := Some (todayISO now) \<rparr> \<and>
   prevDistanceRef (snd (confirmTravel tr sess now)) = prevDistanceRef sess"
  by (simp add: confirmTravel_def)

text \<open>Claim C4, an instance: confirming with no start date set, on day 19009.\<close>

theorem confirmTravel_sets_today_witness:
  "travelStartDate
     (fst (confirmTravel (travelBase \<lparr> travelStartDate := None, autoConfirmed := False \<rparr>)
             (freshSession \<lparr> dismissed := True \<rparr>) (19009 * msPerDay + 5000))) = Some 19009 \<and>
   autoConfirmed
     (fst (confirmTravel (travelBase \<lparr> travelStartDate := None, autoConfirmed := False \<rparr>)
             (freshSession \<lparr> dismissed := True \<rparr>) (19009 * msPerDay + 5000))) \<and>
   \<not> dismissed
     (snd (confirmTravel (travelBase \<lparr> travelStartDate := None, autoConfirmed := False \<rparr>)
             (freshSession \<lparr> dismissed := True \<rparr>) (19009 * msPerDay + 5000)))"
  using confirmTravel_sets_today
          [of "travelBase \<lparr> travelStartDate := None, autoConfirmed := False \<rparr>"
              "freshSession \<lparr> dismissed := True \<rparr>" "19009 * msPerDay + 5000"]
  by (simp add: todayISO_def msPerDay_def)

text \<open>
  Claim C4 as stated fails: a start date of day 19000 is already set, the user confirms
  on day 19009, and the start date is overwritten with day 19009.
\<close>

theorem confirmTravel_overwrites_start_date:
  "travelStartDate travelBase = Some 19000 \<and>
   travelStartDate (fst (confirmTravel travelBase freshSession (19009 * msPerDay + 5000)))
     = Some 19009"
  by (simp add: confirmTravel_def travelBase_def todayISO_def msPerDay_def)

text \<open>
  Claim C5, as amended: when travel is enabled, a home base exists and the override is
  \<open>force_off\<close>, the derived status is the default one: not traveling, not pending, every
  shortening and combining flag off, and \<open>distanceFromHomeKm\<close> is null (the distance is
  not computed).
\<close>

theorem travelState_force_off:
  assumes "TravelSettings.enabled tr" and "homeBase tr = Some home"
    and "override tr = force_off"
  shows "travelState tr location dism now = defaultTravelState \<and>
         isTraveling (travelState tr location dism now) = False \<and>
         qasr (travelState tr location dism now) = \<lparr> dhuhr = False, asr = False, isha = False \<rparr> \<and>
         TravelState.jamaDhuhrAsr (travelState tr location dism now) = False \<and>
         TravelState.jamaMaghribIsha (travelState tr location dism now) = False \<and>
         distanceFromHomeKm (travelState tr location dism now) = None"
  using assms by (simp add: travelState_def defaultTravelState_def)

text \<open>Claim C5, an instance: forced off while at the antipode of the home base.\<close>

theorem travelState_force_off_witness:
  "TravelSettings.enabled (travelBase \<lparr> override := force_off \<rparr>) \<and>
   homeBase (travelBase \<lparr> override := force_off \<rparr>) = Some homeOrigin \<and>
   override (travelBase \<lparr> override := force_off \<rparr>) = force_off \<and>
   travelState (travelBase \<lparr> override := force_off \<rparr>) farAway False exampleNow
     = defaultTravelState"
  using travelState_force_off
          [of "travelBase \<lparr> override := force_off \<rparr>" homeOrigin farAway False exampleNow]
  by (simp add: travelBase_def)

text \<open>
  Claim C5 as stated fails: with travel enabled, a home base and \<open>force_off\<close>, the reported
  distance is not the great-circle distance to home.
\<close>

theorem travelState_force_off_no_distance:
  "TravelSettings.enabled (travelBase \<lparr> override := force_off \<rparr>) \<and>
   homeBase (travelBase \<lparr> override := force_off \<rparr>) = Some homeOrigin \<and>
   distanceFromHomeKm (travelState (travelBase \<lparr> override := force_off \<rparr>) farAway False exampleNow)
     \<noteq> Some (calculateDistanceKm (coordinates homeOrigin) farAway)"
  by (simp add: travelState_def defaultTravelState_def travelBase_def)

text \<open>
  Claim C6: if \<open>maxTravelDays > 0\<close>, a start date is set and the time since the start date
  exceeds \<open>maxTravelDays\<close> days, the derived status has \<open>isTraveling = false\<close>; where the
  travel condition otherwise holds (travel enabled with a home base, and \<open>force_on\<close>, or
  \<open>auto\<close> with \<open>autoConfirmed\<close> and a distance at or above the threshold) the status is the
  default one with the distance filled in. Deriving the status writes no setting, and the
  effect run at the same evaluation leaves the settings, \<open>override\<close> and \<open>autoConfirmed\<close>
  among them, as they were while the distance is at or above the threshold.
\<close>

theorem travelState_expired:
  assumes "maxTravelDays tr > 0" and "travelStartDate tr = Some start"
    and "real_of_int (now - dateGetTime start) / real_of_int msPerDay
           > real_of_int (maxTravelDays tr)"
  shows "isTraveling (travelState tr location dism now) = False \<and>
         (TravelSettings.enabled tr \<and> homeBase tr = Some home \<and>
          (override tr = force_on \<or>
           (override tr = auto \<and> autoConfirmed tr \<and>
            calculateDistanceKm (coordinates home) location \<ge> distanceThresholdKm tr)) \<longrightarrow>
          travelState tr location dism now =
            defaultTravelState
              \<lparr> distanceFromHomeKm := Some (calculateDistanceKm (coordinates home) location) \<rparr>) \<and>
         (homeBase tr = Some home \<and>
          calculateDistanceKm (coordinates home) location \<ge> distanceThresholdKm tr \<longrightarrow>
          fst (autoResetEffect tr sess location) = tr)"
  using assms
  by (auto simp add: travelState_def travelDetection_def travelExpired_def autoResetEffect_def
        Let_def defaultTravelState_def split: option.splits)

text \<open>
  Claim C6, the instance it names: \<open>maxTravelDays = 4\<close>, a start date 5 days in the past,
  \<open>autoConfirmed = true\<close>, far from home.
\<close>

theorem travelState_expired_witness:
  "maxTravelDays travelBase = 4 \<and> autoConfirmed travelBase \<and> override travelBase = auto \<and>
   travelStartDate travelBase = Some 19000 \<and>
   distanceThresholdKm travelBase \<le> calculateDistanceKm (coordinates homeOrigin) farAway \<and>
   isTraveling (travelState travelBase farAway False (19005 * msPerDay + 1)) = False \<and>
   travelState travelBase farAway False (19005 * msPerDay + 1) =
     defaultTravelState \<lparr> distanceFromHomeKm := Some (6371 * pi) \<rparr> \<and>
   fst (autoResetEffect travelBase returningSession farAway) = travelBase"
proof -
  have h: "maxTravelDays travelBase > 0" "travelStartDate travelBase = Some 19000"
    "real_of_int (19005 * msPerDay + 1 - dateGetTime 19000) / real_of_int msPerDay
       > real_of_int (maxTravelDays travelBase)"
    by (simp_all add: travelBase_def dateGetTime_def msPerDay_def)
  have c: "TravelSettings.enabled travelBase" "homeBase travelBase = Some homeOrigin"
    "override travelBase = auto" "autoConfirmed travelBase" "maxTravelDays travelBase = 4"
    "distanceThresholdKm travelBase \<le> calculateDistanceKm (coordinates homeOrigin) farAway"
    using farAway_above by (simp_all add: travelBase_def distance_farAway)
  from travelState_expired [OF h, of farAway False homeOrigin returningSession] c
  have "isTraveling (travelState travelBase farAway False (19005 * msPerDay + 1)) = False \<and>
        travelState travelBase farAway False (19005 * msPerDay + 1) =
          defaultTravelState
            \<lparr> distanceFromHomeKm := Some (calculateDistanceKm (coordinates homeOrigin) farAway) \<rparr> \<and>
        fst (autoResetEffect travelBase returningSession farAway) = travelBase"
    by blast
  with c h(2) show ?thesis
    unfolding distance_farAway by blast
qed

text \<open>
  Claim C7, as amended: on a location update with travel enabled and a home base set, where
  \<open>autoConfirmed\<close> is true, the previous evaluation's distance was at or above the
  threshold and the current distance is below it, the effect clears \<open>autoConfirmed\<close> and
  \<open>travelStartDate\<close> and resets \<open>dismissed\<close> to false; the status derived next has
  \<open>isTraveling = false\<close> unless the override is \<open>force_on\<close>.
\<close>

theorem autoReset_on_return:
  assumes "TravelSettings.enabled tr" and "homeBase tr = Some home" and "autoConfirmed tr"
    and "prevDistanceRef sess = Some prev" and "prev \<ge> distanceThresholdKm tr"
    and "calculateDistanceKm (coordinates home) location < distanceThresholdKm tr"
  shows "fst (autoResetEffect tr sess location) = tr \<lparr> autoConfirmed := False, travelStartDate := None \<rparr> \<and>
         autoConfirmed (fst (autoResetEffect tr sess location)) = False \<and>
         travelStartDate (fst (autoResetEffect tr sess location)) = None \<and>
         dismissed (snd (autoResetEffect tr sess location)) = False \<and>
         (override tr \<noteq> force_on \<longrightarrow>
            isTraveling (travelState (fst (autoResetEffect tr sess location)) location
                           (dismissed (snd (autoResetEffect tr sess location))) now) = False)"
  using assms
  by (auto simp add: autoResetEffect_def travelState_def travelDetection_def Let_def defaultTravelState_def)

text \<open>Claim C7, an instance: confirmed automatic travel, back at the home base.\<close>

theorem autoReset_on_return_witness:
  "autoConfirmed travelBase \<and> override travelBase = auto \<and>
   fst (autoResetEffect travelBase returningSession atHome) = travelBase \<lparr> autoConfirmed := False, travelStartDate := None \<rparr> \<and>
   dismissed (snd (autoResetEffect travelBase returningSession atHome)) = False \<and>
   isTraveling (travelState (fst (autoResetEffect travelBase returningSession atHome)) atHome
                           (dismissed (snd (autoResetEffect travelBase returningSession atHome))) exampleNow) = False"
proof -
  have h: "TravelSettings.enabled travelBase" "homeBase travelBase = Some homeOrigin"
    "autoConfirmed travelBase" "prevDistanceRef returningSession = Some 100"
    "100 \<ge> distanceThresholdKm travelBase"
    "calculateDistanceKm (coordinates homeOrigin) atHome < distanceThresholdKm travelBase"
    "override travelBase = auto"
    by (simp_all add: travelBase_def returningSession_def distance_atHome)
  have ne: "override travelBase \<noteq> force_on"
    by (simp add: travelBase_def)
  from autoReset_on_return [OF h(1-6), of exampleNow] ne h(3,7) show ?thesis
    by blast
qed

text \<open>
  Claim C7 as stated fails under \<open>force_on\<close>: the effect still clears \<open>autoConfirmed\<close>
  and the start date, but the status derived next is traveling.
\<close>

theorem autoReset_force_on_still_traveling:
  "TravelSettings.enabled (travelBase \<lparr> override := force_on \<rparr>) \<and>
   homeBase (travelBase \<lparr> override := force_on \<rparr>) = Some homeOrigin \<and>
   autoConfirmed (travelBase \<lparr> override := force_on \<rparr>) \<and>
   prevDistanceRef returningSession = Some 100 \<and>
   100 \<ge> distanceThresholdKm (travelBase \<lparr> override := force_on \<rparr>) \<and>
   calculateDistanceKm (coordinates homeOrigin) atHome < distanceThresholdKm (travelBase \<lparr> override := force_on \<rparr>) \<and>
   isTraveling (travelState (fst (autoResetEffect (travelBase \<lparr> override := force_on \<rparr>) returningSession atHome)) atHome
                  (dismissed (snd (autoResetEffect (travelBase \<lparr> override := force_on \<rparr>) returningSession atHome))) exampleNow) = True"
  by (simp add: autoResetEffect_def travelState_def travelDetection_def travelExpired_def Let_def travelBase_def returningSession_def distance_atHome)

section \<open>Notification scheduler: claims C1 to C3 and C8 to C10\<close>

text \<open>
  Claim C1, evaluated where it fails: one Jumu'ah reminder with id 700 is pending,
  notifications are enabled and permitted, and the daily pass runs. Afterwards the pending
  notifications are the 26 daily ones; id 700 is gone, although the pass never owned it.
\<close>

theorem scheduleNotifications_cancels_jumuah_band:
  "map notifId (pending examplePlugin) = [700] \<and>
   map notifId
     (pending (scheduleNotifications examplePrayerTimes exampleNow atHome exampleSettings
                 examplePlugin))
     = [300, 301, 110, 111, 310, 311, 120, 121, 320, 321, 130, 131, 330, 331, 140, 141,
        340, 341, 150, 151, 350, 351, 160, 161, 360, 361]"
  by code_simp

text \<open>
  Claim C2, as amended: when notification permission is denied, a daily pass with
  notifications enabled issues no cancellation and no schedule call and leaves the pending
  set unchanged; a weekly Jumu'ah pass issues no schedule call either, but it has already
  cancelled the pending notifications of its own band 700..799 (all others are unchanged).
\<close>

theorem permission_denied_passes:
  assumes "\<not> permitted p"
  shows "(NotificationSettings.enabled (notifications settings) \<longrightarrow>
            pending (scheduleNotifications ptf now coords settings p) = pending p \<and>
            filter isCancel (calls (scheduleNotifications ptf now coords settings p))
              = filter isCancel (calls p) \<and>
            filter isSchedule (calls (scheduleNotifications ptf now coords settings p))
              = filter isSchedule (calls p)) \<and>
         filter isSchedule (calls (scheduleJumuahNotifications now js p))
           = filter isSchedule (calls p) \<and>
         pending (scheduleJumuahNotifications now js p) =
           (if throws p getPending \<or> throws p cancel then pending p
            else filter (\<lambda>n. \<not> inJumuahBand (notifId n)) (pending p))"
  using assms
  by (simp add: scheduleNotifications_eq scheduleJumuahNotifications_eq frame_request
        schedules_request schedules_cancelJumuah pending_cancelJumuah)

text \<open>Claim C2, an instance: permission is denied and a Jumu'ah reminder is pending.\<close>

theorem permission_denied_passes_witness:
  "\<not> permitted deniedPlugin \<and>
   pending (scheduleNotifications examplePrayerTimes exampleNow atHome exampleSettings
              deniedPlugin) = pending deniedPlugin \<and>
   pending (scheduleJumuahNotifications exampleNow (jumuah exampleSettings) deniedPlugin) = []"
proof -
  have denied: "\<not> permitted deniedPlugin"
    by (simp add: permitted_eq deniedPlugin_def examplePlugin_def)
  show ?thesis
    using denied
      permission_denied_passes [OF denied, of exampleSettings examplePrayerTimes exampleNow atHome
        "jumuah exampleSettings"]
    by (simp add: exampleSettings_def deniedPlugin_def examplePlugin_def jumuahNotification_def
          inJumuahBand_def JUMUAH_BASE_ID_def Let_def)
qed

text \<open>
  Claim C2 as stated fails for the weekly pass: with permission denied and the Jumu'ah
  reminder 700 pending, the pass still issues \<open>cancel([700])\<close> before it asks for permission,
  and the pending set changes.
\<close>

theorem scheduleJumuahNotifications_cancels_when_denied:
  "\<not> permitted deniedPlugin \<and>
   map notifId (pending deniedPlugin) = [700] \<and>
   pending (scheduleJumuahNotifications exampleNow (jumuah exampleSettings) deniedPlugin) = [] \<and>
   calls (scheduleJumuahNotifications exampleNow (jumuah exampleSettings) deniedPlugin)
     = [GetPending, Cancel [700], CheckPermissions]"
  by (simp add: deniedPlugin_def examplePlugin_def exampleSettings_def defaultJumuahSettings_def
        scheduleJumuahNotifications_def cancelJumuahNotifications_def
        requestNotificationPermission_def LN_getPending_def LN_cancel_def
        LN_checkPermissions_def logCall_def permitted_def jumuahNotification_def
        inJumuahBand_def JUMUAH_BASE_ID_def Let_def)

text \<open>
  Claim C3: running the daily pass twice in a row with the same prayer-time source,
  coordinates, settings and reconciliation timestamp leaves the same pending notifications
  (same ids, same fire times, same payloads) after the second run as after the first,
  whatever was pending before the first run and whatever the service's permission and fault
  behaviour is.
\<close>

theorem scheduleNotifications_idempotent:
  "pending (scheduleNotifications ptf now coords settings
              (scheduleNotifications ptf now coords settings p)) =
   pending (scheduleNotifications ptf now coords settings p)"
proof (cases "NotificationSettings.enabled (notifications settings)")
  case False
  then show ?thesis
    by (simp add: pending_scheduleNotifications pending_cancelAll frame_scheduleNotifications)
next
  case True
  let ?q = "scheduleNotifications ptf now coords settings p"
  have perm: "permitted ?q = permitted p"
    by (rule permitted_after) (simp_all add: frame_scheduleNotifications True)
  show ?thesis
  proof (cases "permitted p")
    case False
    with True perm show ?thesis by (simp add: pending_scheduleNotifications)
  next
    case yes: True
    let ?ns = "dailyNotifications ptf coords settings now"
    let ?kept = "\<lambda>ps. if throws p getPending \<or> throws p cancel then ps else []"
    have first: "pending ?q =
        (if ?ns = [] \<or> throws p schedule then ?kept (pending p)
         else fold upsert ?ns (?kept (pending p)))"
      using True yes
      by (simp add: pending_scheduleNotifications pending_submit pending_cancelAll
            frame_cancelAll frame_request)
    have second: "pending (scheduleNotifications ptf now coords settings ?q) =
        (if ?ns = [] \<or> throws p schedule then ?kept (pending ?q)
         else fold upsert ?ns (?kept (pending ?q)))"
      using True yes perm
      by (simp add: pending_scheduleNotifications pending_submit pending_cancelAll
            frame_cancelAll frame_request frame_scheduleNotifications)
    show ?thesis
      unfolding second unfolding first by (simp add: fold_upsert_idem)
  qed
qed

text \<open>Claim C3, an instance: two runs starting from a stray Jumu'ah reminder.\<close>

theorem scheduleNotifications_idempotent_witness:
  "pending (scheduleNotifications examplePrayerTimes exampleNow atHome exampleSettings
              (scheduleNotifications examplePrayerTimes exampleNow atHome exampleSettings
                 examplePlugin)) =
   pending (scheduleNotifications examplePrayerTimes exampleNow atHome exampleSettings
              examplePlugin)"
  by (rule scheduleNotifications_idempotent)

text \<open>
  Claim C10: if the global \<open>notifications.enabled\<close> flag is false, the daily pass cancels
  every pending notification of the service, the Jumu'ah band included, schedules nothing and
  does not ask for permission: its only calls are \<open>getPending\<close> and, when something is
  pending, one \<open>cancel\<close> of all pending ids. (The service is taken not to reject these two
  calls.)
\<close>

theorem scheduleNotifications_disabled:
  assumes "\<not> NotificationSettings.enabled (notifications settings)"
    and "\<not> throws p getPending" and "\<not> throws p cancel"
  shows "pending (scheduleNotifications ptf now coords settings p) = [] \<and>
         calls (scheduleNotifications ptf now coords settings p) =
           calls p @ (if pending p = [] then [GetPending]
                      else [GetPending, Cancel (map notifId (pending p))]) \<and>
         display (scheduleNotifications ptf now coords settings p) = display p"
  using assms
  by (auto simp add: scheduleNotifications_def cancelAllNotifications_def LN_getPending_def
        LN_cancel_def logCall_def Let_def filter_empty_conv)

text \<open>Claim C10, an instance: notifications disabled while Jumu'ah reminder 700 is pending.\<close>

theorem scheduleNotifications_disabled_witness:
  "\<not> NotificationSettings.enabled (notifications disabledSettings) \<and>
   map notifId (pending examplePlugin) = [700] \<and>
   pending (scheduleNotifications examplePrayerTimes exampleNow atHome disabledSettings
              examplePlugin) = [] \<and>
   calls (scheduleNotifications examplePrayerTimes exampleNow atHome disabledSettings
            examplePlugin) = [GetPending, Cancel [700]]"
  using scheduleNotifications_disabled
          [of disabledSettings examplePlugin examplePrayerTimes exampleNow atHome]
  by (simp add: disabledSettings_def exampleSettings_def examplePlugin_def
        jumuahNotification_def JUMUAH_BASE_ID_def Let_def)






end
